theory Spec2Isabelle
  imports Complex_Main
begin

unbundle bit_operations_syntax

section \<open>JavaScript strings and truthiness\<close>

text \<open>
  Strings are lists of characters. The helpers below are the built-ins the handlers call:
  \<^verbatim>\<open>String.prototype.trim\<close>, \<^verbatim>\<open>String.prototype.includes\<close>,
  \<^verbatim>\<open>Array.prototype.join\<close>, and the truthiness test that \<^verbatim>\<open>if (x)\<close>, \<^verbatim>\<open>!x\<close> and
  \<^verbatim>\<open>x || y\<close> apply to a value that is either absent (\<^verbatim>\<open>undefined\<close>/\<^verbatim>\<open>null\<close>) or a string:
  only a non-empty string is truthy.
\<close>

definition js_whitespace :: "char \<Rightarrow> bool" where
  "js_whitespace c =
     (let n = (of_char c :: nat)
      in n = 9 \<or> n = 10 \<or> n = 11 \<or> n = 12 \<or> n = 13 \<or> n = 32 \<or> n = 160)"

definition trim :: "string \<Rightarrow> string" where
  "trim s = rev (dropWhile js_whitespace (rev (dropWhile js_whitespace s)))"

definition truthy :: "string option \<Rightarrow> bool" where
  "truthy v = (case v of None \<Rightarrow> False | Some s \<Rightarrow> s \<noteq> [])"

fun starts_with :: "string \<Rightarrow> string \<Rightarrow> bool" where
  "starts_with s [] = True"
| "starts_with [] (p # ps) = False"
| "starts_with (c # s) (p # ps) = (c = p \<and> starts_with s ps)"

fun str_includes :: "string \<Rightarrow> string \<Rightarrow> bool" where
  "str_includes [] sub = (sub = [])"
| "str_includes (c # s) sub = (starts_with (c # s) sub \<or> str_includes s sub)"

fun join :: "string \<Rightarrow> string list \<Rightarrow> string" where
  "join sep [] = []"
| "join sep [x] = x"
| "join sep (x # y # ys) = x @ sep @ join sep (y # ys)"

section \<open>The store behind the routes\<close>

text \<open>
  The routes talk to a hosted database table \<^verbatim>\<open>messages\<close> and a blob bucket
  \<^verbatim>\<open>images\<close>. A payload is what a route hands to \<^verbatim>\<open>insert\<close>; the database adds the
  identifier. A field the request did not carry is \<open>None\<close>.
\<close>

record payload =
  message :: "string option"
  receiver :: "string option"
  latitude :: "real option"
  longitude :: "real option"
  time :: string
  image_path :: "string option"
  image_url :: "string option"
  has_image :: bool

record row = payload +
  row_id :: nat

text \<open>
  The calls that change something, as the database and the bucket receive them. The store
  keeps them in order next to the table and the bucket, so that what a route asked for
  and what became of it can be told apart.
\<close>

datatype backend_call =
    DbInsert payload
  | StorageUpload string
  | StorageRemove "string list"

record store =
  messages :: "row list"
  blobs :: "string list"
  calls :: "backend_call list"

text \<open>
  Everything a handler cannot decide by itself: whether the database rejects an insert
  or a select, whether the bucket rejects an upload or a removal, how the database folds
  the case of a text (it depends on the locale the database was created with), the wall
  clock, the generated identifier, and the built-in \<^verbatim>\<open>parseFloat\<close> (\<open>None\<close> is
  \<^verbatim>\<open>NaN\<close>, which JSON serialises as \<^verbatim>\<open>null\<close>).
\<close>

record backend =
  insert_error :: "payload \<Rightarrow> string option"
  select_error :: "string option"
  upload_error :: "string \<Rightarrow> string option"
  remove_error :: "string list \<Rightarrow> string option"
  lower_text :: "string \<Rightarrow> string"
  public_url :: "string \<Rightarrow> string"
  now_iso :: string
  uuidv4 :: string
  parseFloat :: "string \<Rightarrow> real option"

datatype resp_body = ErrorBody string | Rows "row list" | Success "row list"

record response =
  status :: nat
  resp_body :: resp_body

subsection \<open>The \<^verbatim>\<open>ilike\<close> filter\<close>

text \<open>
  \<^verbatim>\<open>.filter('receiver', 'ilike', search)\<close> sends the search text to the database as the
  pattern of \<^verbatim>\<open>receiver ILIKE pattern\<close>; the REST layer reads \<^verbatim>\<open>*\<close> in it as \<^verbatim>\<open>%\<close>.
  The matcher is the database's, not the repository's; it is written here after the
  database's own routine, case by case. In a pattern \<^verbatim>\<open>%\<close> stands for any run of
  characters, \<^verbatim>\<open>_\<close> for any one character, a backslash makes the next character
  literal, and every other character stands for itself; the pattern has to cover the
  whole text. The outcomes are: matched, not matched, not matched and no later start in
  the text can match either (\<open>LIKE_ABORT\<close>), and the error the database raises when the
  match reaches a backslash that ends the pattern.

  After a \<^verbatim>\<open>%\<close> the matcher first consumes the wildcards that follow it
  (\<open>after_percent\<close>) and then tries every position of the text that starts with the next
  pattern character (\<open>scan_text\<close>).
\<close>

datatype like_result = LIKE_TRUE | LIKE_FALSE | LIKE_ABORT | LIKE_ERROR

fun MatchText :: "string \<Rightarrow> string \<Rightarrow> like_result"
  and after_percent :: "string \<Rightarrow> string \<Rightarrow> like_result"
  and scan_text :: "char \<Rightarrow> string \<Rightarrow> string \<Rightarrow> like_result" where
  "MatchText t p =
     (if p = [CHR ''%''] then LIKE_TRUE
      else
        (case t of
           [] \<Rightarrow> if dropWhile (\<lambda>x. x = CHR ''%'') p = [] then LIKE_TRUE else LIKE_ABORT
         | c # t' \<Rightarrow>
             (case p of
                [] \<Rightarrow> LIKE_FALSE
              | x # p' \<Rightarrow>
                  if x = CHR 0x5C then
                    (case p' of
                       [] \<Rightarrow> LIKE_ERROR
                     | e # p'' \<Rightarrow> if e \<noteq> c then LIKE_FALSE else MatchText t' p'')
                  else if x = CHR ''%'' then after_percent (c # t') p'
                  else if x = CHR ''_'' then MatchText t' p'
                  else if x \<noteq> c then LIKE_FALSE
                  else MatchText t' p')))"
| "after_percent t [] = LIKE_TRUE"
| "after_percent t (y # p) =
     (if y = CHR ''%'' then after_percent t p
      else if y = CHR ''_'' then
        (case t of [] \<Rightarrow> LIKE_ABORT | c # t' \<Rightarrow> after_percent t' p)
      else if y = CHR 0x5C then
        (case p of [] \<Rightarrow> LIKE_ERROR | e # p' \<Rightarrow> scan_text e t (y # p))
      else scan_text y t (y # p))"
| "scan_text firstpat [] p = LIKE_ABORT"
| "scan_text firstpat (c # t) p =
     (if c = firstpat then
        (case MatchText (c # t) p of
           LIKE_FALSE \<Rightarrow> scan_text firstpat t p
         | matched \<Rightarrow> matched)
      else scan_text firstpat t p)"

declare MatchText.simps [simp del]

definition star_to_percent :: "string \<Rightarrow> string" where
  "star_to_percent p = map (\<lambda>c. if c = CHR ''*'' then CHR ''%'' else c) p"

text \<open>
  \<^verbatim>\<open>ILIKE\<close> folds the case of the text and of the pattern, then matches. A \<^verbatim>\<open>NULL\<close>
  receiver matches nothing.
\<close>

definition ilike :: "backend \<Rightarrow> string option \<Rightarrow> string \<Rightarrow> like_result" where
  "ilike be field pattern =
     (case field of
        None \<Rightarrow> LIKE_FALSE
      | Some t \<Rightarrow> MatchText (lower_text be t) (lower_text be (star_to_percent pattern)))"

definition select_ilike_receiver :: "backend \<Rightarrow> store \<Rightarrow> string \<Rightarrow> string + row list" where
  "select_ilike_receiver be st pattern =
     (case select_error be of
        Some msg \<Rightarrow> Inl msg
      | None \<Rightarrow>
          if list_ex (\<lambda>m. ilike be (receiver m) pattern = LIKE_ERROR) (messages st)
          then Inl ''LIKE pattern must not end with escape character''
          else Inr (filter (\<lambda>m. ilike be (receiver m) pattern = LIKE_TRUE) (messages st)))"

section \<open>The search route\<close>

text \<open>
  \<^verbatim>\<open>GET /api/search\<close>. The argument is \<^verbatim>\<open>searchParams.get('receiver')\<close>: \<open>None\<close> when the
  parameter is absent.
\<close>

definition GET :: "backend \<Rightarrow> store \<Rightarrow> string option \<Rightarrow> response" where
  "GET be st search =
     (if \<not> truthy search then \<lparr>status = 400, resp_body = ErrorBody ''Missing receiver''\<rparr>
      else
        (case select_ilike_receiver be st (the search) of
           Inl msg \<Rightarrow> \<lparr>status = 500, resp_body = ErrorBody msg\<rparr>
         | Inr data \<Rightarrow> \<lparr>status = 200, resp_body = Rows data\<rparr>))"

text \<open>
  What the specification asks of the search: the memories whose receiver contains the
  search text as a substring, compared case-insensitively.
\<close>

definition receiver_contains :: "backend \<Rightarrow> string \<Rightarrow> row \<Rightarrow> bool" where
  "receiver_contains be s m =
     (case receiver m of
        None \<Rightarrow> False
      | Some r \<Rightarrow> str_includes (lower_text be r) (lower_text be s))"

definition spec_searchByReceiver :: "backend \<Rightarrow> store \<Rightarrow> string \<Rightarrow> row list" where
  "spec_searchByReceiver be st s = filter (receiver_contains be s) (messages st)"

text \<open>
  What the route computes for a search text that is plain: neither the text nor its
  case-folded form has a pattern character.
\<close>

definition receiver_equals :: "backend \<Rightarrow> string \<Rightarrow> row \<Rightarrow> bool" where
  "receiver_equals be s m =
     (case receiver m of None \<Rightarrow> False | Some r \<Rightarrow> lower_text be r = lower_text be s)"

definition pattern_char :: "char \<Rightarrow> bool" where
  "pattern_char c = (c = CHR ''%'' \<or> c = CHR ''_'' \<or> c = CHR ''*'' \<or> c = CHR 0x5C)"

definition plain :: "backend \<Rightarrow> string \<Rightarrow> bool" where
  "plain be s = (\<not> list_ex pattern_char s \<and> \<not> list_ex pattern_char (lower_text be s))"

section \<open>The submit route\<close>

text \<open>
  \<^verbatim>\<open>POST /api/submit\<close> accepts a JSON body or a multipart form. A body that cannot be
  read in the format the content type selects makes \<^verbatim>\<open>req.json()\<close> or
  \<^verbatim>\<open>req.formData()\<close> throw, which the outer \<^verbatim>\<open>catch\<close> turns into a 500.
\<close>

record image_file =
  file_name :: string
  file_size :: nat
  file_type :: string

record json_body =
  json_message :: "string option"
  json_receiver :: "string option"
  json_latitude :: "real option"
  json_longitude :: "real option"

record form_data =
  form_message :: "string option"
  form_receiver :: "string option"
  form_latitude :: "string option"
  form_longitude :: "string option"
  form_image :: "image_file option"

datatype req_body = JsonBody json_body | FormBody form_data | Unreadable

record request =
  content_type :: "string option"
  req_body :: req_body

definition next_row_id :: "row list \<Rightarrow> nat" where
  "next_row_id rs = Suc (fold max (map row_id rs) 0)"

definition stored :: "payload \<Rightarrow> nat \<Rightarrow> row" where
  "stored p n =
     \<lparr>message = message p, receiver = receiver p, latitude = latitude p,
      longitude = longitude p, time = time p, image_path = image_path p,
      image_url = image_url p, has_image = has_image p, row_id = n\<rparr>"

text \<open>\<^verbatim>\<open>.insert([p]).select()\<close>: the error, or the inserted rows.\<close>

definition db_insert :: "backend \<Rightarrow> store \<Rightarrow> payload \<Rightarrow> (string + row list) \<times> store" where
  "db_insert be st p =
     (let st1 = st\<lparr>calls := calls st @ [DbInsert p]\<rparr>
      in case insert_error be p of
           Some msg \<Rightarrow> (Inl msg, st1)
         | None \<Rightarrow>
             (let r = stored p (next_row_id (messages st1))
              in (Inr [r], st1\<lparr>messages := messages st1 @ [r]\<rparr>)))"

text \<open>
  \<^verbatim>\<open>storage.upload(path, ..., {upsert: false})\<close> refuses a path that exists already.
  \<^verbatim>\<open>storage.remove(paths)\<close> deletes the listed paths, unless the bucket refuses (the
  service is unreachable, or the access policy of the key does not allow deleting); the
  client reports that as the \<^verbatim>\<open>error\<close> of the value it returns and the blobs stay.
\<close>

definition storage_upload :: "backend \<Rightarrow> store \<Rightarrow> string \<Rightarrow> string option \<times> store" where
  "storage_upload be st path =
     (let st1 = st\<lparr>calls := calls st @ [StorageUpload path]\<rparr>
      in if path \<in> set (blobs st1) then (Some ''The resource already exists'', st1)
         else
           (case upload_error be path of
              Some msg \<Rightarrow> (Some msg, st1)
            | None \<Rightarrow> (None, st1\<lparr>blobs := blobs st1 @ [path]\<rparr>)))"

definition storage_remove :: "backend \<Rightarrow> store \<Rightarrow> string list \<Rightarrow> string option \<times> store" where
  "storage_remove be st paths =
     (let st1 = st\<lparr>calls := calls st @ [StorageRemove paths]\<rparr>
      in case remove_error be paths of
           Some msg \<Rightarrow> (Some msg, st1)
         | None \<Rightarrow> (None, st1\<lparr>blobs := filter (\<lambda>p. p \<notin> set paths) (blobs st1)\<rparr>))"

text \<open>\<^verbatim>\<open>name.split('.').pop()\<close>: what follows the last dot, the whole name when it has none.\<close>

definition file_ext :: "string \<Rightarrow> string" where
  "file_ext name = rev (takeWhile (\<lambda>c. c \<noteq> CHR ''.'') (rev name))"

definition image_path_of :: "backend \<Rightarrow> image_file \<Rightarrow> string" where
  "image_path_of be f = ''images/'' @ (uuidv4 be @ ''.'' @ file_ext (file_name f))"

definition json_payload :: "backend \<Rightarrow> json_body \<Rightarrow> payload" where
  "json_payload be body =
     \<lparr>message = json_message body, receiver = json_receiver body,
      latitude = json_latitude body, longitude = json_longitude body,
      time = now_iso be, image_path = None, image_url = None, has_image = False\<rparr>"

definition multipart_payload ::
  "backend \<Rightarrow> form_data \<Rightarrow> string option \<Rightarrow> string option \<Rightarrow> payload" where
  "multipart_payload be fd imagePath imageUrl =
     \<lparr>message = form_message fd, receiver = form_receiver fd,
      latitude = parseFloat be (the (form_latitude fd)),
      longitude = parseFloat be (the (form_longitude fd)),
      time = now_iso be, image_path = imagePath, image_url = imageUrl,
      has_image = (form_image fd \<noteq> None)\<rparr>"

definition internal_server_error :: response where
  "internal_server_error = \<lparr>status = 500, resp_body = ErrorBody ''Internal server error''\<rparr>"

definition POST_json :: "backend \<Rightarrow> store \<Rightarrow> json_body \<Rightarrow> response \<times> store" where
  "POST_json be st body =
     (case db_insert be st (json_payload be body) of
        (Inl msg, st') \<Rightarrow> (\<lparr>status = 500, resp_body = ErrorBody msg\<rparr>, st')
      | (Inr data, st') \<Rightarrow> (\<lparr>status = 200, resp_body = Success data\<rparr>, st'))"

text \<open>
  The image step of the multipart branch: \<open>Inl\<close> when the upload failed, otherwise the
  values of \<^verbatim>\<open>imagePath\<close> and \<^verbatim>\<open>imageUrl\<close> and the store after the upload.
\<close>

definition process_image ::
  "backend \<Rightarrow> store \<Rightarrow> image_file option \<Rightarrow> store + (string option \<times> string option \<times> store)" where
  "process_image be st imageFile =
     (case imageFile of
        None \<Rightarrow> Inr (None, None, st)
      | Some f \<Rightarrow>
          if file_size f > 0 then
            (let imagePath = image_path_of be f
             in case storage_upload be st imagePath of
                  (Some uploadError, st1) \<Rightarrow> Inl st1
                | (None, st1) \<Rightarrow> Inr (Some imagePath, Some (public_url be imagePath), st1))
          else Inr (None, None, st))"

text \<open>
  When the insert fails and \<^verbatim>\<open>imagePath\<close> is set the route awaits
  \<^verbatim>\<open>storage.remove([imagePath])\<close> and goes on to the 500 without looking at what the
  call returned.
\<close>

definition POST_multipart :: "backend \<Rightarrow> store \<Rightarrow> form_data \<Rightarrow> response \<times> store" where
  "POST_multipart be st fd =
     (if \<not> truthy (form_message fd) \<or> \<not> truthy (form_receiver fd)
         \<or> \<not> truthy (form_latitude fd) \<or> \<not> truthy (form_longitude fd)
      then (\<lparr>status = 400, resp_body = ErrorBody ''Missing required fields''\<rparr>, st)
      else
        (case process_image be st (form_image fd) of
           Inl st1 \<Rightarrow> (\<lparr>status = 500, resp_body = ErrorBody ''Failed to upload image''\<rparr>, st1)
         | Inr (imagePath, imageUrl, st1) \<Rightarrow>
             (case db_insert be st1 (multipart_payload be fd imagePath imageUrl) of
                (Inl msg, st2) \<Rightarrow>
                  (\<lparr>status = 500, resp_body = ErrorBody msg\<rparr>,
                   (if truthy imagePath then snd (storage_remove be st2 [the imagePath])
                    else st2))
              | (Inr data, st2) \<Rightarrow> (\<lparr>status = 200, resp_body = Success data\<rparr>, st2))))"

definition isMultipart :: "request \<Rightarrow> bool" where
  "isMultipart req =
     (case content_type req of
        None \<Rightarrow> False
      | Some ct \<Rightarrow> str_includes ct ''multipart/form-data'')"

definition POST :: "backend \<Rightarrow> store \<Rightarrow> request \<Rightarrow> response \<times> store" where
  "POST be st req =
     (if \<not> isMultipart req then
        (case req_body req of
           JsonBody body \<Rightarrow> POST_json be st body
         | _ \<Rightarrow> (internal_server_error, st))
      else
        (case req_body req of
           FormBody fd \<Rightarrow> POST_multipart be st fd
         | _ \<Rightarrow> (internal_server_error, st)))"

text \<open>
  Concrete surroundings for the worked examples. The example database folds the letters
  \<^verbatim>\<open>A\<close> to \<^verbatim>\<open>Z\<close> and the accented capitals of Latin-1 (the codes 192 to 222, the
  multiplication sign 215 apart) to their small letters, 32 further.
\<close>

definition to_lower :: "char \<Rightarrow> char" where
  "to_lower c =
     (let n = (of_char c :: nat)
      in if (65 \<le> n \<and> n \<le> 90) \<or> (192 \<le> n \<and> n \<le> 222 \<and> n \<noteq> 215)
         then char_of (n + 32) else c)"

definition lower :: "string \<Rightarrow> string" where
  "lower s = map to_lower s"

definition example_backend :: backend where
  "example_backend =
     \<lparr>insert_error = (\<lambda>_. None), select_error = None, upload_error = (\<lambda>_. None),
      remove_error = (\<lambda>_. None), lower_text = lower,
      public_url = (\<lambda>p. ''https://cdn/'' @ p), now_iso = ''2025-01-01T00:00:00.000Z'',
      uuidv4 = ''0f8fad5b'', parseFloat = (\<lambda>_. None)\<rparr>"

definition failing_insert_backend :: backend where
  "failing_insert_backend = example_backend\<lparr>insert_error := (\<lambda>_. Some ''insert failed'')\<rparr>"

definition failing_cleanup_backend :: backend where
  "failing_cleanup_backend =
     failing_insert_backend\<lparr>remove_error := (\<lambda>_. Some ''storage unavailable'')\<rparr>"

definition alice_row :: row where
  "alice_row =
     \<lparr>message = Some ''hi'', receiver = Some ''Alice'', latitude = None, longitude = None,
      time = ''2024-12-31T00:00:00.000Z'', image_path = None, image_url = None,
      has_image = False, row_id = 1\<rparr>"

definition bob_row :: row where
  "bob_row = alice_row\<lparr>receiver := Some ''Bob'', row_id := 2\<rparr>"

text \<open>A memory addressed to \<^verbatim>\<open>ECOLE\<close> with an acute accent on the first letter.\<close>

definition ecole_row :: row where
  "ecole_row = alice_row\<lparr>receiver := Some (CHR 0xC9 # ''COLE''), row_id := 3\<rparr>"

text \<open>The same word in small letters.\<close>

definition ecole_lower :: string where
  "ecole_lower = CHR 0xE9 # ''cole''"

definition example_store :: store where
  "example_store = \<lparr>messages = [alice_row, bob_row, ecole_row], blobs = [], calls = []\<rparr>"

definition json_without_message :: request where
  "json_without_message =
     \<lparr>content_type = Some ''application/json'',
      req_body = JsonBody \<lparr>json_message = None, json_receiver = Some ''bob'',
                           json_latitude = Some 20, json_longitude = Some 10\<rparr>\<rparr>"

definition example_image :: image_file where
  "example_image = \<lparr>file_name = ''photo.png'', file_size = 3, file_type = ''image/png''\<rparr>"

definition example_form :: form_data where
  "example_form =
     \<lparr>form_message = Some ''hi'', form_receiver = Some ''bob'',
      form_latitude = Some ''20'', form_longitude = Some ''10'',
      form_image = Some example_image\<rparr>"

definition multipart_with_image :: request where
  "multipart_with_image =
     \<lparr>content_type = Some ''multipart/form-data; boundary=x'',
      req_body = FormBody example_form\<rparr>"

section \<open>The location search box\<close>

text \<open>
  The component keeps its state in React state cells and refs; the model holds them in
  one record and every handler returns the new record together with the calls it made
  to the outside, in order. \<^verbatim>\<open>fetchSearchSuggestions\<close> and \<^verbatim>\<open>retrieveLocation\<close> are
  first given run to completion, the response they await being one of their arguments;
  what other handlers do while \<^verbatim>\<open>retrieveLocation\<close> awaits its response is the subject
  of the last subsection, where the handler is cut at its \<^verbatim>\<open>await\<close>.
\<close>

record suggestion_context =
  country :: "string option"
  region :: "string option"
  place :: "string option"

record suggestion =
  name :: string
  name_preferred :: "string option"
  mapbox_id :: string
  feature_type :: string
  address :: "string option"
  full_address :: "string option"
  sugg_context :: "suggestion_context option"

record retrieved_feature =
  coordinates :: "real \<times> real"
  feat_name :: string
  feat_name_preferred :: "string option"

record suggest_body =
  suggestions :: "suggestion list option"

record retrieve_body =
  features :: "retrieved_feature list option"

text \<open>
  What \<^verbatim>\<open>await fetch(...)\<close> followed by \<^verbatim>\<open>await response.json()\<close> can give: the fetch
  rejects, or there is a response with its \<^verbatim>\<open>ok\<close> flag and a body, \<open>None\<close> when the
  body is not JSON.
\<close>

datatype 'a fetch_result = NetworkError | Response bool "'a option"

text \<open>
  The calls a handler makes: the suggest request with its \<^verbatim>\<open>q\<close>, \<^verbatim>\<open>session_token\<close>,
  \<^verbatim>\<open>access_token\<close> and \<^verbatim>\<open>limit\<close> parameters, the retrieve request with the
  candidate identifier, session token and access token, the two callbacks of the owning
  view with longitude and latitude, and \<^verbatim>\<open>console.error\<close>.
\<close>

datatype search_effect =
    SuggestRequest string string string nat
  | RetrieveRequest string string string
  | OnLocationSelect real real
  | OnTempMarker real real
  | ConsoleError string

record search_box =
  searchTerm :: string
  isSearching :: bool
  results :: "suggestion list"
  showResults :: bool
  sessionToken :: string

subsection \<open>Session tokens\<close>

text \<open>
  \<^verbatim>\<open>generateSessionToken\<close> replaces every \<^verbatim>\<open>x\<close> and \<^verbatim>\<open>y\<close> of the template, left to
  right, by a hexadecimal digit computed from a fresh \<^verbatim>\<open>Math.random()\<close>. The argument
  \<open>rnd\<close> gives the values \<^verbatim>\<open>Math.random()\<close> returns during the call, by position.
\<close>

definition hex_digit :: "nat \<Rightarrow> char" where
  "hex_digit v = (if v < 10 then char_of (48 + v) else char_of (87 + v))"

fun replace_xy :: "(nat \<Rightarrow> real) \<Rightarrow> nat \<Rightarrow> string \<Rightarrow> string" where
  "replace_xy rnd i [] = []"
| "replace_xy rnd i (c # cs) =
     (if c = CHR ''x'' \<or> c = CHR ''y'' then
        (let r = nat \<lfloor>rnd i * 16\<rfloor>;
             v = (if c = CHR ''x'' then r else (r AND 3) OR 8)
         in hex_digit v # replace_xy rnd (Suc i) cs)
      else c # replace_xy rnd i cs)"

definition generateSessionToken :: "(nat \<Rightarrow> real) \<Rightarrow> string" where
  "generateSessionToken rnd = replace_xy rnd 0 ''xxxxxxxx-xxxx-4xxx-yxxx-xxxxxxxxxxxx''"

definition initial_box :: "(nat \<Rightarrow> real) \<Rightarrow> search_box" where
  "initial_box rnd =
     \<lparr>searchTerm = [], isSearching = False, results = [], showResults = False,
      sessionToken = generateSessionToken rnd\<rparr>"

subsection \<open>Suggest and retrieve\<close>

definition suggest_failed :: "search_box \<Rightarrow> search_effect \<Rightarrow> search_box \<times> search_effect list" where
  "suggest_failed sb request =
     (sb\<lparr>results := [], isSearching := False\<rparr>,
      [request, ConsoleError ''Search suggestion error:''])"

definition fetchSearchSuggestions ::
  "string \<Rightarrow> suggest_body fetch_result \<Rightarrow> string \<Rightarrow> search_box
     \<Rightarrow> search_box \<times> search_effect list" where
  "fetchSearchSuggestions mapboxToken resp query sb =
     (if trim query = [] then (sb\<lparr>results := [], showResults := False\<rparr>, [])
      else
        (let request = SuggestRequest query (sessionToken sb) mapboxToken 5;
             sb1 = sb\<lparr>isSearching := True\<rparr>
         in case resp of
              NetworkError \<Rightarrow> suggest_failed sb1 request
            | Response ok body \<Rightarrow>
                if \<not> ok then suggest_failed sb1 request
                else
                  (case body of
                     None \<Rightarrow> suggest_failed sb1 request
                   | Some data \<Rightarrow>
                       (case suggestions data of
                          None \<Rightarrow> suggest_failed (sb1\<lparr>results := []\<rparr>) request
                        | Some ss \<Rightarrow>
                            (sb1\<lparr>results := ss, showResults := (length ss > 0),
                                 isSearching := False\<rparr>,
                             [request])))))"

text \<open>\<^verbatim>\<open>a || b\<close> on an optional string and a string.\<close>

definition or_else :: "string option \<Rightarrow> string \<Rightarrow> string" where
  "or_else a b = (if truthy a then the a else b)"

definition retrieve_failed :: "search_box \<Rightarrow> search_effect \<Rightarrow> search_box \<times> search_effect list" where
  "retrieve_failed sb request =
     (sb\<lparr>isSearching := False, showResults := False\<rparr>,
      [request, ConsoleError ''Location retrieve error:''])"

definition retrieveLocation ::
  "string \<Rightarrow> (nat \<Rightarrow> real) \<Rightarrow> retrieve_body fetch_result \<Rightarrow> string \<Rightarrow> search_box
     \<Rightarrow> search_box \<times> search_effect list" where
  "retrieveLocation mapboxToken rnd resp mapboxId sb =
     (let request = RetrieveRequest mapboxId (sessionToken sb) mapboxToken;
          sb1 = sb\<lparr>isSearching := True\<rparr>
      in case resp of
           NetworkError \<Rightarrow> retrieve_failed sb1 request
         | Response ok body \<Rightarrow>
             if \<not> ok then retrieve_failed sb1 request
             else
               (case body of
                  None \<Rightarrow> retrieve_failed sb1 request
                | Some data \<Rightarrow>
                    (case features data of
                       Some (feature # rest) \<Rightarrow>
                         (case coordinates feature of
                            (lng, lat) \<Rightarrow>
                              (sb1\<lparr>searchTerm :=
                                      or_else (feat_name_preferred feature) (feat_name feature),
                                    sessionToken := generateSessionToken rnd,
                                    isSearching := False, showResults := False\<rparr>,
                               [request, OnLocationSelect lng lat, OnTempMarker lng lat]))
                     | _ \<Rightarrow> (sb1\<lparr>isSearching := False, showResults := False\<rparr>, [request]))))"

text \<open>A retrieve resolved a place: success status, readable body, non-empty feature list.\<close>

definition retrieve_resolved :: "retrieve_body fetch_result \<Rightarrow> bool" where
  "retrieve_resolved resp =
     (case resp of
        NetworkError \<Rightarrow> False
      | Response ok body \<Rightarrow>
          ok \<and> (case body of
                  None \<Rightarrow> False
                | Some data \<Rightarrow>
                    (case features data of None \<Rightarrow> False | Some fs \<Rightarrow> fs \<noteq> [])))"

definition location_events :: "search_effect list \<Rightarrow> search_effect list" where
  "location_events effs =
     filter (\<lambda>e. case e of OnLocationSelect lng lat \<Rightarrow> True
                          | OnTempMarker lng lat \<Rightarrow> True
                          | _ \<Rightarrow> False) effs"

definition suggest_requests :: "search_effect list \<Rightarrow> search_effect list" where
  "suggest_requests effs =
     filter (\<lambda>e. case e of SuggestRequest q s a l \<Rightarrow> True | _ \<Rightarrow> False) effs"

subsection \<open>Display names\<close>

definition push_name :: "string option \<Rightarrow> string list \<Rightarrow> string list" where
  "push_name field ctx = (if truthy field then ctx @ [the field] else ctx)"

definition getDisplayName :: "suggestion \<Rightarrow> string" where
  "getDisplayName s =
     (if truthy (name_preferred s) then the (name_preferred s)
      else
        (let name0 = or_else (name_preferred s) (name s);
             ctx = (case sugg_context s of
                      None \<Rightarrow> []
                    | Some c \<Rightarrow>
                        push_name (country c) (push_name (region c) (push_name (place c) [])))
         in if length ctx > 0 then name0 @ '', '' @ join '', '' ctx else name0))"

text \<open>
  The composition rule in the specification's words. A name counts as carried or
  present when the field is given and is not the empty string.
\<close>

definition carried :: "string option \<Rightarrow> string list" where
  "carried v = (case v of None \<Rightarrow> [] | Some s \<Rightarrow> if s = [] then [] else [s])"

definition spec_context_names :: "suggestion \<Rightarrow> string list" where
  "spec_context_names s =
     (case sugg_context s of
        None \<Rightarrow> []
      | Some c \<Rightarrow> carried (place c) @ carried (region c) @ carried (country c))"

definition spec_displayName :: "suggestion \<Rightarrow> string" where
  "spec_displayName s =
     (case carried (name_preferred s) of
        p # _ \<Rightarrow> p
      | [] \<Rightarrow> join '', '' (name s # spec_context_names s))"

subsection \<open>The debounce timer\<close>

text \<open>
  \<^verbatim>\<open>setTimeout\<close> and \<^verbatim>\<open>clearTimeout\<close> of the runtime: the pending timers, each with
  the time in milliseconds at which it is due and the query its callback closed over.
  Timer identifiers are positive, so a stored identifier is truthy.
\<close>

record timer =
  timer_id :: nat
  deadline :: nat
  timer_query :: string

record search_world =
  clock :: nat
  next_timer_id :: nat
  pending :: "timer list"
  searchDebounceRef :: "nat option"
  box :: search_box
  emitted :: "search_effect list"

definition clearTimeout :: "nat \<Rightarrow> timer list \<Rightarrow> timer list" where
  "clearTimeout tid ts = filter (\<lambda>t. timer_id t \<noteq> tid) ts"

definition handleInputChange :: "string \<Rightarrow> search_world \<Rightarrow> search_world" where
  "handleInputChange query w =
     (let w1 = w\<lparr>box := (box w)\<lparr>searchTerm := query\<rparr>\<rparr>;
          w2 = (case searchDebounceRef w1 of
                  None \<Rightarrow> w1
                | Some tid \<Rightarrow>
                    if tid \<noteq> 0 then w1\<lparr>pending := clearTimeout tid (pending w1)\<rparr> else w1);
          tid' = next_timer_id w2
      in w2\<lparr>pending := pending w2
                @ [\<lparr>timer_id = tid', deadline = clock w2 + 300, timer_query = query\<rparr>],
            next_timer_id := Suc tid',
            searchDebounceRef := Some tid'\<rparr>)"

text \<open>A due timer runs its callback, \<^verbatim>\<open>fetchSearchSuggestions(query)\<close>.\<close>

definition fire ::
  "string \<Rightarrow> (string \<Rightarrow> suggest_body fetch_result) \<Rightarrow> timer \<Rightarrow> search_world \<Rightarrow> search_world" where
  "fire mapboxToken respond t w =
     (case fetchSearchSuggestions mapboxToken (respond (timer_query t)) (timer_query t) (box w) of
        (sb, effs) \<Rightarrow>
          w\<lparr>pending := clearTimeout (timer_id t) (pending w), box := sb,
            emitted := emitted w @ effs\<rparr>)"

definition elapse ::
  "string \<Rightarrow> (string \<Rightarrow> suggest_body fetch_result) \<Rightarrow> nat \<Rightarrow> search_world \<Rightarrow> search_world" where
  "elapse mapboxToken respond d w =
     (let w1 = w\<lparr>clock := clock w + d\<rparr>;
          due = filter (\<lambda>t. deadline t \<le> clock w1) (pending w1)
      in fold (fire mapboxToken respond) due w1)"

datatype search_event = InputChange string | Elapse nat

fun step ::
  "string \<Rightarrow> (string \<Rightarrow> suggest_body fetch_result) \<Rightarrow> search_event \<Rightarrow> search_world \<Rightarrow> search_world" where
  "step mapboxToken respond (InputChange query) w = handleInputChange query w"
| "step mapboxToken respond (Elapse d) w = elapse mapboxToken respond d w"

definition run ::
  "string \<Rightarrow> (string \<Rightarrow> suggest_body fetch_result) \<Rightarrow> search_event list \<Rightarrow> search_world \<Rightarrow> search_world" where
  "run mapboxToken respond evs w = fold (step mapboxToken respond) evs w"

definition initial_world :: "(nat \<Rightarrow> real) \<Rightarrow> search_world" where
  "initial_world rnd =
     \<lparr>clock = 0, next_timer_id = 1, pending = [], searchDebounceRef = None,
      box = initial_box rnd, emitted = []\<rparr>"

text \<open>Keystrokes, each followed by a pause.\<close>

fun typing :: "(string \<times> nat) list \<Rightarrow> search_event list" where
  "typing [] = []"
| "typing ((query, pause) # ks) = InputChange query # Elapse pause # typing ks"

text \<open>Concrete surroundings for the worked examples.\<close>

definition zero_draws :: "nat \<Rightarrow> real" where
  "zero_draws i = 0"

definition half_draws :: "nat \<Rightarrow> real" where
  "half_draws i = 1 / 2"



definition nothing_found :: "retrieve_body fetch_result" where
  "nothing_found = Response True (Some \<lparr>features = Some []\<rparr>)"

definition no_suggestions :: "string \<Rightarrow> suggest_body fetch_result" where
  "no_suggestions q = Response True (Some \<lparr>suggestions = Some []\<rparr>)"

definition cafe_x :: suggestion where
  "cafe_x =
     \<lparr>name = ''Cafe X'', name_preferred = None, mapbox_id = ''id1'', feature_type = ''poi'',
      address = None, full_address = None,
      sugg_context = Some \<lparr>country = Some ''France'', region = None, place = Some ''Paris''\<rparr>\<rparr>"

definition cafe_y :: suggestion where
  "cafe_y = cafe_x\<lparr>name_preferred := Some ''Cafe Y''\<rparr>"

text \<open>
  What holds of the timers between events: at most one is pending; it is the one the ref
  names, it carries the text in the box, and it is due within the next 300 ms.
\<close>

definition debounce_inv :: "search_world \<Rightarrow> bool" where
  "debounce_inv w =
     (next_timer_id w \<noteq> 0
      \<and> length (pending w) \<le> 1
      \<and> list_all (\<lambda>t. searchDebounceRef w = Some (timer_id t)
                       \<and> timer_id t \<noteq> 0
                       \<and> timer_query t = searchTerm (box w)
                       \<and> clock w < deadline t
                       \<and> deadline t \<le> clock w + 300) (pending w))"


subsection \<open>Retrieve, around its await\<close>

text \<open>
  \<^verbatim>\<open>retrieveLocation\<close> builds its request, reading the session token, and then awaits
  the response; until the response arrives other handlers run, and the text box stays
  enabled. The part before the \<^verbatim>\<open>await\<close> and the part after it, each on the state it
  finds:
\<close>

definition retrieveLocation_send ::
  "string \<Rightarrow> string \<Rightarrow> search_box \<Rightarrow> search_box \<times> search_effect list" where
  "retrieveLocation_send mapboxToken mapboxId sb =
     (sb\<lparr>isSearching := True\<rparr>, [RetrieveRequest mapboxId (sessionToken sb) mapboxToken])"

definition retrieve_caught :: "search_box \<Rightarrow> search_box \<times> search_effect list" where
  "retrieve_caught sb =
     (sb\<lparr>isSearching := False, showResults := False\<rparr>,
      [ConsoleError ''Location retrieve error:''])"

definition retrieveLocation_receive ::
  "(nat \<Rightarrow> real) \<Rightarrow> retrieve_body fetch_result \<Rightarrow> search_box
     \<Rightarrow> search_box \<times> search_effect list" where
  "retrieveLocation_receive rnd resp sb =
     (case resp of
        NetworkError \<Rightarrow> retrieve_caught sb
      | Response ok body \<Rightarrow>
          if \<not> ok then retrieve_caught sb
          else
            (case body of
               None \<Rightarrow> retrieve_caught sb
             | Some data \<Rightarrow>
                 (case features data of
                    Some (feature # rest) \<Rightarrow>
                      (case coordinates feature of
                         (lng, lat) \<Rightarrow>
                           (sb\<lparr>searchTerm :=
                                   or_else (feat_name_preferred feature) (feat_name feature),
                                 sessionToken := generateSessionToken rnd,
                                 isSearching := False, showResults := False\<rparr>,
                            [OnLocationSelect lng lat, OnTempMarker lng lat]))
                  | _ \<Rightarrow> (sb\<lparr>isSearching := False, showResults := False\<rparr>, []))))"















section \<open>The memory form\<close>

text \<open>
  \<^verbatim>\<open>handleSubmit\<close> of the panel. The record returned by the server is read field by
  field; an identifier counts as present when it is truthy, that is given and not zero.
\<close>

record memory_json =
  mem_id :: "nat option"
  mem_message :: "string option"
  mem_receiver :: "string option"
  mem_time :: "string option"
  mem_longitude :: "real option"
  mem_latitude :: "real option"

record submit_result =
  result_data :: "memory_json option list option"

text \<open>
  The outcome of the request: the fetch rejects with an error message, or there is a
  response with its \<^verbatim>\<open>ok\<close> flag, its status text and its body; the body is an error
  message when reading it as JSON (or reading \<^verbatim>\<open>result.data\<close>) throws.
\<close>

datatype submit_response =
    SubmitRejected string
  | SubmitResponse bool string "string + submit_result"

record map_feature =
  feature_id :: string
  feature_message :: "string option"
  feature_receiver :: "string option"
  feature_time :: "string option"
  feature_coordinates :: "real option \<times> real option"

text \<open>
  The calls of the form: the create request with message, receiver, latitude and
  longitude, the two callbacks of the owning view, and \<^verbatim>\<open>console.error\<close>.
\<close>

datatype panel_effect =
    SubmitRequest string string real real
  | OnNewPin map_feature
  | OnPinFormToggle bool
  | PanelConsoleError string

record panel =
  showForm :: bool
  form_text :: string
  form_to :: string
  markerLocation :: "(real \<times> real) option"
  isSubmitting :: bool
  errorMessage :: "string option"

text \<open>
  The identifier of a record is a serial number of the table. The identifier of the map
  feature is \<^verbatim>\<open>msg\<close> followed by that number, which the template string prints in
  decimal, as JavaScript does for the whole numbers below \<open>2^53\<close>. Larger identifiers
  are outside the model.
\<close>

fun string_of_nat :: "nat \<Rightarrow> string" where
  "string_of_nat n =
     (if n < 10 then [char_of (48 + n)]
      else string_of_nat (n div 10) @ [char_of (48 + n mod 10)])"

text \<open>\<^verbatim>\<open>result.data?.[0]\<close>\<close>

definition first_record :: "submit_result \<Rightarrow> memory_json option" where
  "first_record result =
     (case result_data result of
        None \<Rightarrow> None
      | Some [] \<Rightarrow> None
      | Some (m # rest) \<Rightarrow> m)"

definition truthy_id :: "nat option \<Rightarrow> bool" where
  "truthy_id v = (case v of None \<Rightarrow> False | Some n \<Rightarrow> n \<noteq> 0)"

definition newFeature :: "memory_json \<Rightarrow> map_feature" where
  "newFeature m =
     \<lparr>feature_id = ''msg'' @ string_of_nat (the (mem_id m)),
      feature_message = mem_message m, feature_receiver = mem_receiver m,
      feature_time = mem_time m,
      feature_coordinates = (mem_longitude m, mem_latitude m)\<rparr>"

definition submit_caught ::
  "panel \<Rightarrow> panel_effect \<Rightarrow> string \<Rightarrow> panel \<times> panel_effect list" where
  "submit_caught p request msg =
     (p\<lparr>errorMessage := Some msg, isSubmitting := False\<rparr>,
      [request, PanelConsoleError msg])"

definition handleSubmit :: "submit_response \<Rightarrow> panel \<Rightarrow> panel \<times> panel_effect list" where
  "handleSubmit resp p =
     (let p0 = p\<lparr>errorMessage := None\<rparr>
      in case markerLocation p of
           None \<Rightarrow>
             (p0\<lparr>errorMessage := Some ''Please drag the marker to a location on the map.''\<rparr>,
              [])
         | Some (lng, lat) \<Rightarrow>
             if trim (form_text p) = [] \<or> trim (form_to p) = [] then
               (p0\<lparr>errorMessage := Some ''Please fill in all fields.''\<rparr>, [])
             else
               (let p1 = p0\<lparr>isSubmitting := True\<rparr>;
                    request = SubmitRequest (form_text p) (form_to p) lat lng
                in case resp of
                     SubmitRejected msg \<Rightarrow> submit_caught p1 request msg
                   | SubmitResponse ok statusText body \<Rightarrow>
                       if \<not> ok then
                         submit_caught p1 request (''Failed to pin memory: '' @ statusText)
                       else
                         (case body of
                            Inl msg \<Rightarrow> submit_caught p1 request msg
                          | Inr result \<Rightarrow>
                              (case first_record result of
                                 None \<Rightarrow>
                                   submit_caught p1 request ''Invalid response from server''
                               | Some newMemory \<Rightarrow>
                                   if \<not> truthy_id (mem_id newMemory) then
                                     submit_caught p1 request ''Invalid response from server''
                                   else
                                     (p1\<lparr>form_text := [], form_to := [],
                                         markerLocation := None, showForm := False,
                                         isSubmitting := False\<rparr>,
                                      [request, OnNewPin (newFeature newMemory),
                                       OnPinFormToggle False])))))"

text \<open>The create request returned a record with an identifier.\<close>

definition returned_record :: "submit_response \<Rightarrow> bool" where
  "returned_record resp =
     (case resp of
        SubmitRejected msg \<Rightarrow> False
      | SubmitResponse ok statusText body \<Rightarrow>
          ok \<and> (case body of
                  Inl msg \<Rightarrow> False
                | Inr result \<Rightarrow>
                    (case first_record result of
                       None \<Rightarrow> False
                     | Some m \<Rightarrow> truthy_id (mem_id m))))"

definition submission_succeeds :: "submit_response \<Rightarrow> panel \<Rightarrow> bool" where
  "submission_succeeds resp p =
     (markerLocation p \<noteq> None \<and> trim (form_text p) \<noteq> [] \<and> trim (form_to p) \<noteq> []
      \<and> returned_record resp)"

definition new_pins :: "panel_effect list \<Rightarrow> panel_effect list" where
  "new_pins effs = filter (\<lambda>e. case e of OnNewPin f \<Rightarrow> True | _ \<Rightarrow> False) effs"

definition filled_panel :: panel where
  "filled_panel =
     \<lparr>showForm = True, form_text = ''hi'', form_to = ''bob'', markerLocation = Some (10, 20),
      isSubmitting = False, errorMessage = None\<rparr>"

definition created_memory :: memory_json where
  "created_memory =
     \<lparr>mem_id = Some 42, mem_message = Some ''hi'', mem_receiver = Some ''bob'',
      mem_time = Some ''2025-01-01T00:00:00.000Z'', mem_longitude = Some 10,
      mem_latitude = Some 20\<rparr>"

definition created_response :: submit_response where
  "created_response =
     SubmitResponse True ''OK'' (Inr \<lparr>result_data = Some [Some created_memory]\<rparr>)"

definition server_error_response :: submit_response where
  "server_error_response = SubmitResponse False ''Internal Server Error'' (Inl [])"

section \<open>Properties of the search route\<close>

text \<open>A pattern without pattern characters matches exactly itself, and never raises.\<close>

lemma MatchText_literal:
  "\<not> list_ex pattern_char p \<Longrightarrow>
     (MatchText t p = LIKE_TRUE) = (t = p) \<and> MatchText t p \<noteq> LIKE_ERROR"
proof (induction p arbitrary: t)
  case Nil
  show ?case by (cases t) (simp_all add: MatchText.simps[of _ "[]"])
next
  case (Cons a p)
  from Cons.prems have na: "\<not> pattern_char a" and p: "\<not> list_ex pattern_char p"
    by simp_all
  from na have a: "a \<noteq> CHR ''%''" "a \<noteq> CHR ''_''" "a \<noteq> CHR 0x5C"
    by (simp_all add: pattern_char_def)
  show ?case
  proof (cases t)
    case Nil
    then show ?thesis using a by (simp add: MatchText.simps[of "[]" "a # p"])
  next
    case (Cons c t')
    from Cons.IH[OF p, of t'] a show ?thesis
      unfolding Cons by (simp add: MatchText.simps[of "c # t'" "a # p"])
  qed
qed

text \<open>
  The matcher on patterns with wildcards and escapes: \<^verbatim>\<open>%\<close> on either side makes a
  substring search, \<^verbatim>\<open>_\<close> stands for one character, an escaped \<^verbatim>\<open>%\<close> is literal,
  and a backslash at the end of the pattern is an error once the match reaches it.
\<close>

lemma MatchText_examples:
  "MatchText ''alice'' ''%lic%'' = LIKE_TRUE"
  "MatchText ''alice'' ''ali%'' = LIKE_TRUE"
  "MatchText ''alice'' ''%ice'' = LIKE_TRUE"
  "MatchText ''alice'' ''a_i_e'' = LIKE_TRUE"
  "MatchText ''alice'' ''a%e'' = LIKE_TRUE"
  "MatchText ''alice'' ''ali'' = LIKE_FALSE"
  "MatchText ''ali'' ''alice'' = LIKE_ABORT"
  "MatchText ''alice'' ''%b%'' = LIKE_ABORT"
  "MatchText ''50%'' [CHR ''5'', CHR ''0'', CHR 0x5C, CHR ''%''] = LIKE_TRUE"
  "MatchText ''500'' [CHR ''5'', CHR ''0'', CHR 0x5C, CHR ''%''] = LIKE_FALSE"
  "MatchText ''ab'' [CHR ''a'', CHR 0x5C] = LIKE_ERROR"
  "MatchText ''a'' [CHR ''%'', CHR ''_'', CHR 0x5C] = LIKE_ERROR"
  "MatchText ''a'' [CHR ''_'', CHR 0x5C] = LIKE_ABORT"
  "MatchText ''b'' [CHR ''a'', CHR 0x5C] = LIKE_FALSE"
  by code_simp+

lemma star_to_percent_literal:
  "\<not> list_ex pattern_char s \<Longrightarrow> star_to_percent s = s"
  by (induction s) (auto simp: star_to_percent_def pattern_char_def)

lemma ilike_plain:
  assumes "plain be s"
  shows "(ilike be (receiver m) s = LIKE_TRUE) = receiver_equals be s m
       \<and> ilike be (receiver m) s \<noteq> LIKE_ERROR"
proof (cases "receiver m")
  case None
  then show ?thesis by (simp add: ilike_def receiver_equals_def)
next
  case (Some r)
  from assms have s: "star_to_percent s = s" and l: "\<not> list_ex pattern_char (lower_text be s)"
    by (simp_all add: plain_def star_to_percent_literal)
  from MatchText_literal[OF l, of "lower_text be r"] Some s
  show ?thesis by (simp add: ilike_def receiver_equals_def)
qed

lemma select_plain:
  assumes "plain be s" and "select_error be = None"
  shows "select_ilike_receiver be st s = Inr (filter (receiver_equals be s) (messages st))"
  using assms(2) ilike_plain[OF assms(1)]
  by (simp add: select_ilike_receiver_def list_ex_iff)

lemma GET_plain:
  assumes "s \<noteq> []" and "plain be s" and "select_error be = None"
  shows "GET be st (Some s)
           = \<lparr>status = 200, resp_body = Rows (filter (receiver_equals be s) (messages st))\<rparr>"
  using assms(1) select_plain[OF assms(2,3)] by (simp add: GET_def truthy_def)

lemma receiver_equals_cong:
  "lower_text be s' = lower_text be s \<Longrightarrow> receiver_equals be s' = receiver_equals be s"
  by (rule ext) (simp add: receiver_equals_def split: option.splits)

text \<open>
  C1, as the specification states it, fails: the search text is handed to \<^verbatim>\<open>ilike\<close>
  without wildcards around it, so it has to cover the whole receiver field. With stored
  memories addressed to \<^verbatim>\<open>Alice\<close> and \<^verbatim>\<open>Bob\<close>, searching for \<^verbatim>\<open>ali\<close> returns
  nothing, while the memories whose receiver contains \<^verbatim>\<open>ali\<close> include the first.
\<close>

theorem search_substring_counterexample:
  "GET example_backend example_store (Some ''ali'') = \<lparr>status = 200, resp_body = Rows []\<rparr>
   \<and> spec_searchByReceiver example_backend example_store ''ali'' = [alice_row]"
  by code_simp

text \<open>
  C1, amended: for every stored collection and every non-empty search text \<open>s\<close> that
  is plain (no \<^verbatim>\<open>%\<close>, \<^verbatim>\<open>_\<close>, \<^verbatim>\<open>*\<close> or backslash in it, before or after case
  folding), when the database answers the search returns exactly the memories whose
  whole receiver field equals \<open>s\<close> after the database has folded the case of both; and
  two plain search texts that the database folds to the same text, such as \<^verbatim>\<open>ALICE\<close>
  and \<^verbatim>\<open>alice\<close>, get the same response.
\<close>

theorem search_whole_field_case_insensitive:
  assumes "s \<noteq> []" and "plain be s" and "select_error be = None"
  shows "GET be st (Some s)
           = \<lparr>status = 200, resp_body = Rows (filter (receiver_equals be s) (messages st))\<rparr>
       \<and> (\<forall>s'. s' \<noteq> [] \<and> plain be s' \<and> lower_text be s' = lower_text be s
              \<longrightarrow> GET be st (Some s') = GET be st (Some s))"
proof -
  have "GET be st (Some s') = GET be st (Some s)"
    if h: "s' \<noteq> [] \<and> plain be s' \<and> lower_text be s' = lower_text be s" for s'
  proof -
    from h have "receiver_equals be s' = receiver_equals be s"
      by (intro receiver_equals_cong) simp
    with GET_plain[OF _ _ assms(3), of s' st] h GET_plain[OF assms, of st]
    show ?thesis by simp
  qed
  with GET_plain[OF assms, of st] show ?thesis by blast
qed

theorem search_whole_field_witness:
  "GET example_backend example_store (Some ''ALICE'')
     = \<lparr>status = 200, resp_body = Rows [alice_row]\<rparr>
   \<and> GET example_backend example_store (Some ''alice'')
     = GET example_backend example_store (Some ''ALICE'')
   \<and> GET example_backend example_store (Some ecole_lower)
     = \<lparr>status = 200, resp_body = Rows [ecole_row]\<rparr>"
proof -
  have h1: "''ALICE'' \<noteq> []" and h1': "''alice'' \<noteq> []" and h1'': "ecole_lower \<noteq> []"
    by (simp_all add: ecole_lower_def)
  have h2: "plain example_backend ''ALICE''" by code_simp
  have h2': "plain example_backend ''alice''" by code_simp
  have h2'': "plain example_backend ecole_lower" by code_simp
  have h3: "select_error example_backend = None" by (simp add: example_backend_def)
  have h4: "lower_text example_backend ''alice'' = lower_text example_backend ''ALICE''"
    by code_simp
  have r: "filter (receiver_equals example_backend ''ALICE'') (messages example_store)
             = [alice_row]"
    by code_simp
  have r': "filter (receiver_equals example_backend ecole_lower) (messages example_store)
             = [ecole_row]"
    by code_simp
  from search_whole_field_case_insensitive[OF h1 h2 h3, of example_store]
       search_whole_field_case_insensitive[OF h1'' h2'' h3, of example_store]
       h1' h2' h4
  show ?thesis unfolding r r' by blast
qed

text \<open>
  C7, as stated, fails in its second half: for a non-empty value whose query succeeds
  the route answers 200, but with the records the \<^verbatim>\<open>ilike\<close> filter selects, which are
  not the records the specification calls matching (those whose receiver contains the
  value). Searching for \<^verbatim>\<open>lic\<close> succeeds and returns the empty list although a memory
  is addressed to \<^verbatim>\<open>Alice\<close>.
\<close>

theorem search_matching_counterexample:
  "select_ilike_receiver example_backend example_store ''lic'' = Inr []
   \<and> GET example_backend example_store (Some ''lic'')
       \<noteq> \<lparr>status = 200,
           resp_body = Rows (spec_searchByReceiver example_backend example_store ''lic'')\<rparr>"
  by code_simp

text \<open>
  C7, amended: the search route answers 400 with the error body \<^verbatim>\<open>Missing receiver\<close>
  exactly when the \<^verbatim>\<open>receiver\<close> parameter is absent or empty; for a non-empty value
  whose database query succeeds it answers 200 with the stored records whose receiver
  matches the value as an \<^verbatim>\<open>ILIKE\<close> pattern, in table order; for a plain value these
  are the records whose whole receiver equals the value after case folding.
\<close>

theorem search_validation:
  "(status (GET be st search) = 400) = (search = None \<or> search = Some [])
   \<and> (search = None \<or> search = Some [] \<longrightarrow>
        GET be st search = \<lparr>status = 400, resp_body = ErrorBody ''Missing receiver''\<rparr>)
   \<and> (\<forall>s rows. search = Some s \<and> s \<noteq> [] \<and> select_ilike_receiver be st s = Inr rows
        \<longrightarrow> GET be st search = \<lparr>status = 200, resp_body = Rows rows\<rparr>
            \<and> rows = filter (\<lambda>m. ilike be (receiver m) s = LIKE_TRUE) (messages st)
            \<and> (plain be s \<longrightarrow> rows = filter (receiver_equals be s) (messages st)))"
proof -
  have a: "(status (GET be st search) = 400) = (search = None \<or> search = Some [])"
    by (auto simp: GET_def truthy_def split: option.splits sum.splits)
  have b: "search = None \<or> search = Some [] \<longrightarrow>
        GET be st search = \<lparr>status = 400, resp_body = ErrorBody ''Missing receiver''\<rparr>"
    by (auto simp: GET_def truthy_def)
  have c: "GET be st search = \<lparr>status = 200, resp_body = Rows rows\<rparr>
            \<and> rows = filter (\<lambda>m. ilike be (receiver m) s = LIKE_TRUE) (messages st)
            \<and> (plain be s \<longrightarrow> rows = filter (receiver_equals be s) (messages st))"
    if h: "search = Some s \<and> s \<noteq> [] \<and> select_ilike_receiver be st s = Inr rows" for s rows
  proof -
    from h have g: "GET be st search = \<lparr>status = 200, resp_body = Rows rows\<rparr>"
      by (simp add: GET_def truthy_def)
    from h have e: "select_error be = None"
      and r: "rows = filter (\<lambda>m. ilike be (receiver m) s = LIKE_TRUE) (messages st)"
      by (auto simp: select_ilike_receiver_def split: option.splits if_splits)
    have "rows = filter (receiver_equals be s) (messages st)" if "plain be s"
      using select_plain[OF that e, of st] h by simp
    with g r show ?thesis by blast
  qed
  from a b c show ?thesis by blast
qed

theorem search_validation_witness:
  "GET example_backend example_store None
     = \<lparr>status = 400, resp_body = ErrorBody ''Missing receiver''\<rparr>
   \<and> GET example_backend example_store (Some [])
     = \<lparr>status = 400, resp_body = ErrorBody ''Missing receiver''\<rparr>
   \<and> status (GET example_backend example_store (Some ''BOB'')) \<noteq> 400
   \<and> GET example_backend example_store (Some ''BOB'')
     = \<lparr>status = 200, resp_body = Rows [bob_row]\<rparr>
   \<and> [bob_row] = filter (receiver_equals example_backend ''BOB'') (messages example_store)
   \<and> GET example_backend example_store (Some ''*LI*'')
     = \<lparr>status = 200, resp_body = Rows [alice_row]\<rparr>"
proof -
  have h: "select_ilike_receiver example_backend example_store ''BOB'' = Inr [bob_row]"
    by code_simp
  have h': "select_ilike_receiver example_backend example_store ''*LI*'' = Inr [alice_row]"
    by code_simp
  have p: "plain example_backend ''BOB''" by code_simp
  have n: "''BOB'' \<noteq> []" and n': "''*LI*'' \<noteq> []" by simp_all
  note i1 = search_validation[of example_backend example_store None]
  note i2 = search_validation[of example_backend example_store "Some []"]
  note i3 = search_validation[of example_backend example_store "Some ''BOB''"]
  note i4 = search_validation[of example_backend example_store "Some ''*LI*''"]
  from i1 have a: "GET example_backend example_store None
     = \<lparr>status = 400, resp_body = ErrorBody ''Missing receiver''\<rparr>" by blast
  from i2 have b: "GET example_backend example_store (Some [])
     = \<lparr>status = 400, resp_body = ErrorBody ''Missing receiver''\<rparr>" by blast
  from i3 have c: "status (GET example_backend example_store (Some ''BOB'')) \<noteq> 400"
    by simp
  from i3 h p n have d: "GET example_backend example_store (Some ''BOB'')
     = \<lparr>status = 200, resp_body = Rows [bob_row]\<rparr>
     \<and> [bob_row] = filter (receiver_equals example_backend ''BOB'') (messages example_store)"
    by blast
  from i4 h' n' have e: "GET example_backend example_store (Some ''*LI*'')
     = \<lparr>status = 200, resp_body = Rows [alice_row]\<rparr>" by blast
  from a b c d e show ?thesis by blast
qed

section \<open>Properties of the submit route\<close>

text \<open>The JSON branch has no validation step: it answers 200 or 500, never 400.\<close>

lemma POST_json_status:
  "status (fst (POST_json be st body)) = 200 \<or> status (fst (POST_json be st body)) = 500"
  by (simp add: POST_json_def db_insert_def Let_def split: option.splits)

text \<open>The multipart branch rejects a form with a missing or empty required field.\<close>

lemma POST_multipart_missing:
  assumes "\<not> truthy (form_message fd) \<or> \<not> truthy (form_receiver fd)
           \<or> \<not> truthy (form_latitude fd) \<or> \<not> truthy (form_longitude fd)"
  shows "POST_multipart be st fd
           = (\<lparr>status = 400, resp_body = ErrorBody ''Missing required fields''\<rparr>, st)"
  using assms by (simp add: POST_multipart_def)

text \<open>
  C2 asks for a 400 and no insert whenever message, receiver or a coordinate is missing,
  for JSON and multipart bodies alike. The multipart branch does that
  (\<open>POST_multipart_missing\<close>); the JSON branch does not: a JSON body without a message,
  sent to a database that accepts the row, is stored and answered with 200.
\<close>

theorem json_create_without_message_is_stored:
  "POST example_backend \<lparr>messages = [], blobs = [], calls = []\<rparr> json_without_message
     = (\<lparr>status = 200,
         resp_body = Success
           [\<lparr>message = None, receiver = Some ''bob'', latitude = Some 20, longitude = Some 10,
             time = ''2025-01-01T00:00:00.000Z'', image_path = None, image_url = None,
             has_image = False, row_id = 1\<rparr>]\<rparr>,
        \<lparr>messages =
           [\<lparr>message = None, receiver = Some ''bob'', latitude = Some 20, longitude = Some 10,
             time = ''2025-01-01T00:00:00.000Z'', image_path = None, image_url = None,
             has_image = False, row_id = 1\<rparr>],
         blobs = [],
         calls =
           [DbInsert
              \<lparr>message = None, receiver = Some ''bob'', latitude = Some 20,
               longitude = Some 10, time = ''2025-01-01T00:00:00.000Z'', image_path = None,
               image_url = None, has_image = False\<rparr>]\<rparr>)"
  by (simp add: POST_def isMultipart_def json_without_message_def POST_json_def db_insert_def
      json_payload_def example_backend_def stored_def next_row_id_def Let_def)

text \<open>
  C3, as stated, fails: the route calls \<^verbatim>\<open>remove\<close> for the uploaded image and returns
  the 500 whatever that call answered. When the bucket refuses the removal as well, the
  request ends with the uploaded image still in the bucket and no record pointing to it.
\<close>

theorem failed_cleanup_leaves_uploaded_image:
  "fst (POST failing_cleanup_backend example_store multipart_with_image)
     = \<lparr>status = 500, resp_body = ErrorBody ''insert failed''\<rparr>
   \<and> messages (snd (POST failing_cleanup_backend example_store multipart_with_image))
     = messages example_store
   \<and> blobs (snd (POST failing_cleanup_backend example_store multipart_with_image))
     = [''images/0f8fad5b.png'']"
  by code_simp

text \<open>
  C3, amended: in a multipart create whose image upload succeeds and whose database
  insert then fails, the route makes exactly three calls, in this order: the upload of
  the image under its generated path, the insert, and the removal of that same path; it
  then answers 500 with the database's message and no record has been added. The
  uploaded image is gone from the bucket when the removal succeeded, and is still there
  when the bucket refused it: the route does not look at the outcome of the removal.
\<close>

theorem insert_failure_removes_uploaded_image:
  assumes multipart: "isMultipart req" "req_body req = FormBody fd"
    and fields: "truthy (form_message fd)" "truthy (form_receiver fd)"
                "truthy (form_latitude fd)" "truthy (form_longitude fd)"
    and image: "form_image fd = Some f" "file_size f > 0"
    and path: "path = image_path_of be f"
    and new: "path \<notin> set (blobs st)"
    and upload_succeeds: "upload_error be path = None"
    and insert_fails:
      "insert_error be (multipart_payload be fd (Some path) (Some (public_url be path)))
         = Some msg"
  shows "fst (POST be st req) = \<lparr>status = 500, resp_body = ErrorBody msg\<rparr>
       \<and> calls (snd (POST be st req))
           = calls st @ [StorageUpload path,
                         DbInsert (multipart_payload be fd (Some path) (Some (public_url be path))),
                         StorageRemove [path]]
       \<and> messages (snd (POST be st req)) = messages st
       \<and> blobs (snd (POST be st req))
           = (if remove_error be [path] = None then blobs st else blobs st @ [path])"
proof -
  have p: "path \<noteq> []" by (simp add: path image_path_of_def)
  have up: "storage_upload be st path
      = (None, st\<lparr>calls := calls st @ [StorageUpload path], blobs := blobs st @ [path]\<rparr>)"
    using new upload_succeeds by (simp add: storage_upload_def Let_def)
  have img: "process_image be st (form_image fd)
      = Inr (Some path, Some (public_url be path),
             st\<lparr>calls := calls st @ [StorageUpload path], blobs := blobs st @ [path]\<rparr>)"
    using image up by (simp add: process_image_def Let_def path[symmetric])
  have keep: "filter (\<lambda>p. p \<noteq> path) (blobs st) = blobs st"
    using new by (auto simp: filter_id_conv)
  have "POST be st req = POST_multipart be st fd"
    using multipart by (simp add: POST_def)
  then show ?thesis
    using fields img insert_fails p keep
    by (simp add: POST_multipart_def db_insert_def storage_remove_def Let_def truthy_def
        split: option.splits)
qed

theorem insert_failure_removes_uploaded_image_witness:
  "fst (POST failing_insert_backend example_store multipart_with_image)
     = \<lparr>status = 500, resp_body = ErrorBody ''insert failed''\<rparr>
   \<and> calls (snd (POST failing_insert_backend example_store multipart_with_image))
     = [StorageUpload ''images/0f8fad5b.png'',
        DbInsert (multipart_payload failing_insert_backend example_form
                    (Some ''images/0f8fad5b.png'')
                    (Some (public_url failing_insert_backend ''images/0f8fad5b.png''))),
        StorageRemove [''images/0f8fad5b.png'']]
   \<and> messages (snd (POST failing_insert_backend example_store multipart_with_image))
     = messages example_store
   \<and> blobs (snd (POST failing_insert_backend example_store multipart_with_image)) = []
   \<and> blobs (snd (POST failing_cleanup_backend example_store multipart_with_image))
     = [''images/0f8fad5b.png'']"
proof -
  have m: "isMultipart multipart_with_image"
    by (simp add: isMultipart_def multipart_with_image_def)
  have b: "req_body multipart_with_image = FormBody example_form"
    by (simp add: multipart_with_image_def)
  have t: "truthy (form_message example_form)" "truthy (form_receiver example_form)"
    "truthy (form_latitude example_form)" "truthy (form_longitude example_form)"
    by (simp_all add: truthy_def example_form_def)
  have i: "form_image example_form = Some example_image" "file_size example_image > 0"
    by (simp_all add: example_form_def example_image_def)
  have p: "''images/0f8fad5b.png'' = image_path_of failing_insert_backend example_image"
    and p': "''images/0f8fad5b.png'' = image_path_of failing_cleanup_backend example_image"
    by (simp_all add: image_path_of_def failing_insert_backend_def failing_cleanup_backend_def
        example_backend_def file_ext_def example_image_def)
  have n: "''images/0f8fad5b.png'' \<notin> set (blobs example_store)"
    by (simp add: example_store_def)
  have u: "upload_error failing_insert_backend ''images/0f8fad5b.png'' = None"
    and u': "upload_error failing_cleanup_backend ''images/0f8fad5b.png'' = None"
    by (simp_all add: failing_insert_backend_def failing_cleanup_backend_def example_backend_def)
  have e: "insert_error failing_insert_backend
             (multipart_payload failing_insert_backend example_form
                (Some ''images/0f8fad5b.png'')
                (Some (public_url failing_insert_backend ''images/0f8fad5b.png'')))
           = Some ''insert failed''"
    and e': "insert_error failing_cleanup_backend
             (multipart_payload failing_cleanup_backend example_form
                (Some ''images/0f8fad5b.png'')
                (Some (public_url failing_cleanup_backend ''images/0f8fad5b.png'')))
           = Some ''insert failed''"
    by (simp_all add: failing_insert_backend_def failing_cleanup_backend_def)
  have r: "remove_error failing_insert_backend [''images/0f8fad5b.png''] = None"
    and r': "remove_error failing_cleanup_backend [''images/0f8fad5b.png''] \<noteq> None"
    by (simp_all add: failing_insert_backend_def failing_cleanup_backend_def example_backend_def)
  have c: "calls example_store = []" and bl: "blobs example_store = []"
    by (simp_all add: example_store_def)
  from insert_failure_removes_uploaded_image[OF m b t i p n u e]
       insert_failure_removes_uploaded_image[OF m b t i p' n u' e']
  show ?thesis
    by (simp add: r r' c bl)
qed

section \<open>Properties of the location search box\<close>

lemma push_name_carried: "push_name field ctx = ctx @ carried field"
  by (cases field) (simp_all add: push_name_def carried_def truthy_def)

lemma join_Cons: "ctx \<noteq> [] \<Longrightarrow> join sep (n # ctx) = n @ sep @ join sep ctx"
  by (cases ctx) simp_all

text \<open>
  C8: the displayed name of a suggestion is its preferred name when it carries one,
  whatever the context; otherwise it is the raw name followed by the present context
  names in the order place, region, country, all joined by a comma and a space. The
  code agrees with the rule as the specification words it, on every suggestion.
\<close>

theorem display_name_composition: "getDisplayName s = spec_displayName s"
proof (cases "truthy (name_preferred s)")
  case True
  then show ?thesis
    by (auto simp: getDisplayName_def spec_displayName_def carried_def truthy_def
        split: option.splits)
next
  case False
  then have c: "carried (name_preferred s) = []"
    by (auto simp: carried_def truthy_def split: option.splits)
  have ctx: "(case sugg_context s of None \<Rightarrow> []
      | Some c \<Rightarrow> push_name (country c) (push_name (region c) (push_name (place c) [])))
      = spec_context_names s"
    by (simp add: spec_context_names_def push_name_carried split: option.splits)
  show ?thesis
    using False c
    by (cases "spec_context_names s = []")
      (simp_all add: getDisplayName_def spec_displayName_def or_else_def ctx Let_def join_Cons)
qed

theorem display_name_composition_witness:
  "getDisplayName cafe_x = ''Cafe X, Paris, France'' \<and> getDisplayName cafe_y = ''Cafe Y''"
proof -
  have "spec_displayName cafe_x = ''Cafe X, Paris, France''"
    by (simp add: spec_displayName_def cafe_x_def carried_def spec_context_names_def)
  moreover have "spec_displayName cafe_y = ''Cafe Y''"
    by (simp add: spec_displayName_def cafe_y_def cafe_x_def carried_def)
  ultimately show ?thesis
    using display_name_composition[of cafe_x] display_name_composition[of cafe_y] by simp
qed

lemma trim_whitespace:
  assumes "\<forall>c \<in> set q. js_whitespace c"
  shows "trim q = []"
proof -
  have d: "dropWhile js_whitespace q = []"
    using assms by (induction q) auto
  show ?thesis unfolding trim_def d by simp
qed

text \<open>
  C9: for a query that is empty or consists of whitespace only, the suggest operation
  makes no call at all, empties the suggestion list and hides the results panel.
\<close>

theorem blank_query_makes_no_request:
  assumes "\<forall>c \<in> set query. js_whitespace c"
  shows "fetchSearchSuggestions mapboxToken resp query sb
           = (sb\<lparr>results := [], showResults := False\<rparr>, [])"
  using trim_whitespace[OF assms] by (simp add: fetchSearchSuggestions_def)

theorem blank_query_makes_no_request_witness:
  "fetchSearchSuggestions ''tok'' NetworkError ''   '' (initial_box zero_draws)
     = ((initial_box zero_draws)\<lparr>results := [], showResults := False\<rparr>, [])
   \<and> fetchSearchSuggestions ''tok'' NetworkError [] (initial_box zero_draws)
     = ((initial_box zero_draws)\<lparr>results := [], showResults := False\<rparr>, [])"
proof -
  have h: "\<forall>c \<in> set ''   ''. js_whitespace c" by (simp add: js_whitespace_def)
  have h': "\<forall>c \<in> set ''''. js_whitespace c" by simp
  from blank_query_makes_no_request[OF h] blank_query_makes_no_request[OF h']
  show ?thesis by blast
qed

text \<open>
  C6: after a retrieve that did not resolve a place (the fetch failed, the status was
  not a success, the body was unreadable, or the feature list was missing or empty) no
  location-selected and no temporary-marker event was emitted, the query text, the
  session token and the suggestion list are as before, the results panel is hidden, and
  the only calls made are the request itself and, on an error, one console log.
\<close>

theorem failed_retrieve_changes_nothing:
  assumes "\<not> retrieve_resolved resp"
    and "retrieveLocation mapboxToken rnd resp mapboxId sb = (sb', effs)"
  shows "location_events effs = []
       \<and> searchTerm sb' = searchTerm sb
       \<and> sessionToken sb' = sessionToken sb
       \<and> results sb' = results sb
       \<and> showResults sb' = False
       \<and> isSearching sb' = False
       \<and> (effs = [RetrieveRequest mapboxId (sessionToken sb) mapboxToken]
          \<or> effs = [RetrieveRequest mapboxId (sessionToken sb) mapboxToken,
                     ConsoleError ''Location retrieve error:''])"
  using assms
  by (auto simp: retrieve_resolved_def retrieveLocation_def retrieve_failed_def
      location_events_def Let_def
      split: fetch_result.splits option.splits list.splits if_splits)

theorem failed_retrieve_changes_nothing_witness:
  "\<not> retrieve_resolved nothing_found
   \<and> location_events (snd (retrieveLocation ''tok'' zero_draws nothing_found ''id1''
                              (initial_box half_draws))) = []
   \<and> searchTerm (fst (retrieveLocation ''tok'' zero_draws nothing_found ''id1''
                        (initial_box half_draws))) = searchTerm (initial_box half_draws)
   \<and> sessionToken (fst (retrieveLocation ''tok'' zero_draws nothing_found ''id1''
                        (initial_box half_draws))) = sessionToken (initial_box half_draws)
   \<and> showResults (fst (retrieveLocation ''tok'' zero_draws nothing_found ''id1''
                        (initial_box half_draws))) = False"
proof -
  have h: "\<not> retrieve_resolved nothing_found"
    by (simp add: retrieve_resolved_def nothing_found_def)
  from failed_retrieve_changes_nothing[OF h surjective_pairing] h
  show ?thesis by blast
qed

lemma fetchSearchSuggestions_keeps:
  "sessionToken (fst (fetchSearchSuggestions tok resp q sb)) = sessionToken sb
   \<and> searchTerm (fst (fetchSearchSuggestions tok resp q sb)) = searchTerm sb"
  by (simp add: fetchSearchSuggestions_def suggest_failed_def Let_def
      split: fetch_result.splits option.splits)

lemma fetchSearchSuggestions_requests:
  "suggest_requests (snd (fetchSearchSuggestions tok resp q sb))
     = (if trim q = [] then [] else [SuggestRequest q (sessionToken sb) tok 5])"
  by (simp add: fetchSearchSuggestions_def suggest_failed_def suggest_requests_def Let_def
      split: fetch_result.splits option.splits)

lemma handleInputChange_box:
  "box (handleInputChange q w) = (box w)\<lparr>searchTerm := q\<rparr>
   \<and> emitted (handleInputChange q w) = emitted w
   \<and> clock (handleInputChange q w) = clock w"
  by (simp add: handleInputChange_def Let_def split: option.splits)




text \<open>Run to completion, \<^verbatim>\<open>retrieveLocation\<close> is its first half followed by its second.\<close>

lemma retrieveLocation_halves:
  "retrieveLocation tok rnd resp mid sb
     = (case retrieveLocation_send tok mid sb of
          (sb1, sent) \<Rightarrow>
            (case retrieveLocation_receive rnd resp sb1 of
               (sb2, rcvd) \<Rightarrow> (sb2, sent @ rcvd)))"
  by (simp add: retrieveLocation_def retrieveLocation_send_def retrieveLocation_receive_def
      retrieve_failed_def retrieve_caught_def Let_def
      split: fetch_result.splits option.splits list.splits prod.splits)















lemma pending_cases:
  assumes "debounce_inv w"
  obtains "pending w = []"
  | t where "pending w = [t]" "searchDebounceRef w = Some (timer_id t)" "timer_id t \<noteq> 0"
      "timer_query t = searchTerm (box w)" "clock w < deadline t" "deadline t \<le> clock w + 300"
proof (cases "pending w")
  case Nil
  then show ?thesis using that by simp
next
  case (Cons t ts)
  with assms have "ts = []" by (simp add: debounce_inv_def)
  with Cons assms show ?thesis using that by (simp add: debounce_inv_def)
qed

lemma initial_inv: "debounce_inv (initial_world rnd)"
  by (simp add: debounce_inv_def initial_world_def)

lemma keystroke_pending:
  assumes "debounce_inv w"
  shows "pending (handleInputChange q w)
           = [\<lparr>timer_id = next_timer_id w, deadline = clock w + 300, timer_query = q\<rparr>]
       \<and> searchDebounceRef (handleInputChange q w) = Some (next_timer_id w)
       \<and> next_timer_id (handleInputChange q w) = Suc (next_timer_id w)"
  using assms
  by (rule pending_cases)
    (simp_all add: handleInputChange_def Let_def clearTimeout_def split: option.splits)

lemma keystroke_inv:
  assumes "debounce_inv w"
  shows "debounce_inv (handleInputChange q w)"
proof -
  have "next_timer_id w \<noteq> 0" using assms by (simp add: debounce_inv_def)
  then show ?thesis
    using keystroke_pending[OF assms, of q] handleInputChange_box[of q w]
    by (simp add: debounce_inv_def)
qed

lemma elapse_nothing_due:
  assumes "list_all (\<lambda>t. clock w + d < deadline t) (pending w)"
  shows "elapse tok respond d w = w\<lparr>clock := clock w + d\<rparr>"
proof -
  have "filter (\<lambda>t. deadline t \<le> clock w + d) (pending w) = []"
    using assms by (auto simp: filter_empty_conv list_all_iff)
  then show ?thesis by (simp add: elapse_def Let_def)
qed

lemma elapse_one_due:
  assumes "pending w = [t]" and "deadline t \<le> clock w + d"
  shows "elapse tok respond d w = fire tok respond t (w\<lparr>clock := clock w + d\<rparr>)"
  using assms by (simp add: elapse_def Let_def)

lemma fire_single:
  assumes "pending w = [t]"
  shows "pending (fire tok respond t w) = []
       \<and> clock (fire tok respond t w) = clock w
       \<and> next_timer_id (fire tok respond t w) = next_timer_id w
       \<and> searchTerm (box (fire tok respond t w)) = searchTerm (box w)
       \<and> sessionToken (box (fire tok respond t w)) = sessionToken (box w)
       \<and> suggest_requests (emitted (fire tok respond t w))
           = suggest_requests (emitted w)
             @ (if trim (timer_query t) = [] then []
                else [SuggestRequest (timer_query t) (sessionToken (box w)) tok 5])"
  using assms
    fetchSearchSuggestions_keeps[of tok "respond (timer_query t)" "timer_query t" "box w"]
    fetchSearchSuggestions_requests[of tok "respond (timer_query t)" "timer_query t" "box w"]
  by (auto simp: fire_def clearTimeout_def suggest_requests_def split: prod.splits)

text \<open>One pause: at most one request, for the text in the box, and only if a timer is due.\<close>

lemma elapse_requests:
  assumes "debounce_inv w"
  shows "debounce_inv (elapse tok respond d w)
       \<and> searchTerm (box (elapse tok respond d w)) = searchTerm (box w)
       \<and> sessionToken (box (elapse tok respond d w)) = sessionToken (box w)
       \<and> suggest_requests (emitted (elapse tok respond d w))
           = suggest_requests (emitted w)
             @ (if list_ex (\<lambda>t. deadline t \<le> clock w + d) (pending w)
                   \<and> trim (searchTerm (box w)) \<noteq> []
                then [SuggestRequest (searchTerm (box w)) (sessionToken (box w)) tok 5]
                else [])"
  using assms
proof (rule pending_cases)
  assume p: "pending w = []"
  then have "elapse tok respond d w = w\<lparr>clock := clock w + d\<rparr>"
    by (simp add: elapse_nothing_due)
  then show ?thesis using assms p by (simp add: debounce_inv_def)
next
  fix t
  assume p: "pending w = [t]" and q: "timer_query t = searchTerm (box w)"
    and lo: "clock w < deadline t" and hi: "deadline t \<le> clock w + 300"
  show ?thesis
  proof (cases "deadline t \<le> clock w + d")
    case True
    let ?w1 = "w\<lparr>clock := clock w + d\<rparr>"
    have e: "elapse tok respond d w = fire tok respond t ?w1"
      using p True by (rule elapse_one_due)
    have p1: "pending ?w1 = [t]" using p by simp
    from fire_single[OF p1, of tok respond] assms p q True
    show ?thesis by (simp add: e debounce_inv_def)
  next
    case False
    then have "elapse tok respond d w = w\<lparr>clock := clock w + d\<rparr>"
      using p by (simp add: elapse_nothing_due)
    then show ?thesis using assms p False hi by (simp add: debounce_inv_def)
  qed
qed

lemma step_inv: "debounce_inv w \<Longrightarrow> debounce_inv (step tok respond ev w)"
  by (cases ev) (simp_all add: keystroke_inv elapse_requests)

lemma run_inv: "debounce_inv w \<Longrightarrow> debounce_inv (run tok respond evs w)"
  unfolding run_def by (induction evs arbitrary: w) (simp_all add: step_inv)

lemma reachable_inv: "debounce_inv (run tok respond evs (initial_world rnd))"
  by (rule run_inv[OF initial_inv])

lemma key_then_short_pause:
  assumes "debounce_inv w" and "d < 300"
  shows "debounce_inv (elapse tok respond d (handleInputChange q w))
       \<and> emitted (elapse tok respond d (handleInputChange q w)) = emitted w
       \<and> sessionToken (box (elapse tok respond d (handleInputChange q w)))
           = sessionToken (box w)"
proof -
  let ?k = "handleInputChange q w"
  have k: "debounce_inv ?k" using assms(1) by (rule keystroke_inv)
  have "list_all (\<lambda>t. clock ?k + d < deadline t) (pending ?k)"
    using keystroke_pending[OF assms(1), of q] handleInputChange_box[of q w] assms(2) by simp
  then have e: "elapse tok respond d ?k = ?k\<lparr>clock := clock ?k + d\<rparr>"
    by (rule elapse_nothing_due)
  have "debounce_inv (elapse tok respond d ?k)"
    using k by (simp add: elapse_requests)
  then show ?thesis using handleInputChange_box[of q w] by (simp add: e)
qed

lemma key_then_long_pause:
  assumes "debounce_inv w" and "300 \<le> D"
  shows "suggest_requests (emitted (elapse tok respond D (handleInputChange q w)))
           = suggest_requests (emitted w)
             @ (if trim q = [] then [] else [SuggestRequest q (sessionToken (box w)) tok 5])"
proof -
  let ?k = "handleInputChange q w"
  have k: "debounce_inv ?k" using assms(1) by (rule keystroke_inv)
  have due: "list_ex (\<lambda>t. deadline t \<le> clock ?k + D) (pending ?k)"
    using keystroke_pending[OF assms(1), of q] handleInputChange_box[of q w] assms(2) by simp
  from elapse_requests[OF k, of tok respond D] due handleInputChange_box[of q w]
  show ?thesis by simp
qed

lemma burst:
  assumes "debounce_inv w" and "list_all (\<lambda>k. snd k < 300) ks" and "300 \<le> D"
  shows "suggest_requests (emitted (run tok respond (typing (ks @ [(q, D)])) w))
           = suggest_requests (emitted w)
             @ (if trim q = [] then [] else [SuggestRequest q (sessionToken (box w)) tok 5])"
  using assms
proof (induction ks arbitrary: w)
  case Nil
  then show ?case using key_then_long_pause[of w D tok respond q] by (simp add: run_def)
next
  case (Cons k ks)
  obtain q' d where k: "k = (q', d)" by (cases k)
  with Cons.prems have d: "d < 300" and rest: "list_all (\<lambda>k. snd k < 300) ks" by simp_all
  let ?w' = "elapse tok respond d (handleInputChange q' w)"
  from key_then_short_pause[OF Cons.prems(1) d, of tok respond q']
  have inv': "debounce_inv ?w'" and em: "emitted ?w' = emitted w"
    and tk: "sessionToken (box ?w') = sessionToken (box w)" by simp_all
  from Cons.IH[OF inv' rest Cons.prems(3)]
  show ?case by (simp add: k run_def em tk)
qed

text \<open>
  C5: in every state the search box can reach by keystrokes and pauses, a keystroke
  leaves exactly one pending timer, the new one, due 300 ms later and carrying the typed
  text (whatever was pending is cancelled); and after any run of keystrokes that follow
  each other by less than 300 ms, ended by a pause of at least 300 ms, exactly one
  suggest request has been added, for the text of the last keystroke (none when that
  text is blank).
\<close>

theorem debounce_last_write_wins:
  assumes "w = run tok respond evs (initial_world rnd)"
    and "list_all (\<lambda>k. snd k < 300) ks" and "300 \<le> D"
  shows "pending (handleInputChange q w)
           = [\<lparr>timer_id = next_timer_id w, deadline = clock w + 300, timer_query = q\<rparr>]
       \<and> suggest_requests (emitted (run tok respond (typing (ks @ [(q, D)])) w))
           = suggest_requests (emitted w)
             @ (if trim q = [] then [] else [SuggestRequest q (sessionToken (box w)) tok 5])"
proof -
  have inv: "debounce_inv w" unfolding assms(1) by (rule reachable_inv)
  from keystroke_pending[OF inv, of q] burst[OF inv assms(2,3), of tok respond q]
  show ?thesis by simp
qed

theorem debounce_last_write_wins_witness:
  "suggest_requests (emitted (run ''tok'' no_suggestions
      (typing ([(''par'', 100), (''pari'', 100)] @ [(''paris'', 300)]))
      (initial_world zero_draws)))
   = [SuggestRequest ''paris'' ''00000000-0000-4000-8000-000000000000'' ''tok'' 5]"
proof -
  have h1: "list_all (\<lambda>k. snd k < 300) [(''par'', 100::nat), (''pari'', 100)]" by simp
  have h2: "(300::nat) \<le> 300" by simp
  have r: "run ''tok'' no_suggestions [] (initial_world zero_draws) = initial_world zero_draws"
    by (simp add: run_def)
  have t: "sessionToken (box (initial_world zero_draws))
             = ''00000000-0000-4000-8000-000000000000''"
    by code_simp
  have e: "suggest_requests (emitted (initial_world zero_draws)) = []"
    by (simp add: initial_world_def suggest_requests_def)
  have tr: "trim ''paris'' \<noteq> []" by code_simp
  note inst = debounce_last_write_wins[where tok="''tok''" and respond=no_suggestions
      and evs="[]" and rnd=zero_draws and q="''paris''", OF refl h1 h2, unfolded r]
  from inst tr show ?thesis unfolding t e by simp
qed

section \<open>Properties of the memory form\<close>

text \<open>
  C10: a submission succeeds when the marker is set, the trimmed message and the
  trimmed receiver are non-empty, and the create request returns a record with an
  identifier. When it does not succeed, no feature is handed to the map, the form is not
  closed, the message, the receiver, the marker and the form's visibility are as before
  and an error message is set. When it succeeds, one feature is handed to the map, the
  fields and the marker are cleared, the form is closed and no error message is set. So
  the form is cleared and closed exactly when the submission succeeds.
\<close>

theorem submit_failure_keeps_form:
  assumes "handleSubmit resp p = (p', effs)"
  shows "(\<not> submission_succeeds resp p \<longrightarrow>
            new_pins effs = [] \<and> OnPinFormToggle False \<notin> set effs
            \<and> form_text p' = form_text p \<and> form_to p' = form_to p
            \<and> markerLocation p' = markerLocation p \<and> showForm p' = showForm p
            \<and> errorMessage p' \<noteq> None)
       \<and> (submission_succeeds resp p \<longrightarrow>
            length (new_pins effs) = 1 \<and> OnPinFormToggle False \<in> set effs
            \<and> form_text p' = [] \<and> form_to p' = []
            \<and> markerLocation p' = None \<and> showForm p' = False
            \<and> errorMessage p' = None \<and> isSubmitting p' = False)"
  using assms
  by (auto simp: handleSubmit_def submission_succeeds_def returned_record_def submit_caught_def
      new_pins_def Let_def
      split: option.splits prod.splits if_splits submit_response.splits sum.splits)

theorem submit_failure_keeps_form_witness:
  "\<not> submission_succeeds server_error_response filled_panel
   \<and> new_pins (snd (handleSubmit server_error_response filled_panel)) = []
   \<and> form_text (fst (handleSubmit server_error_response filled_panel)) = form_text filled_panel
   \<and> markerLocation (fst (handleSubmit server_error_response filled_panel))
       = markerLocation filled_panel
   \<and> submission_succeeds created_response filled_panel
   \<and> form_text (fst (handleSubmit created_response filled_panel)) = []
   \<and> markerLocation (fst (handleSubmit created_response filled_panel)) = None
   \<and> showForm (fst (handleSubmit created_response filled_panel)) = False"
proof -
  have f: "\<not> submission_succeeds server_error_response filled_panel"
    by (simp add: submission_succeeds_def returned_record_def server_error_response_def)
  have s: "submission_succeeds created_response filled_panel"
    by code_simp
  from submit_failure_keeps_form[OF surjective_pairing, of server_error_response filled_panel]
       submit_failure_keeps_form[OF surjective_pairing, of created_response filled_panel] f s
  show ?thesis by blast
qed

end
